theory Spec2Isabelle
  imports Main "HOL-Library.Word"
begin

section \<open>Shared data: bytes, errors, addresses, blocks, tipsets\<close>

type_synonym byte = "8 word"
type_synonym uint64 = "64 word"

text \<open>
  A Go \<open>error\<close> value. \<open>errors.New\<close> builds one from its text and \<open>Error()\<close> reads the
  text back. A nil error is \<open>None\<close> of \<open>error option\<close>.
\<close>

datatype error = errors_New (Error: string)

text \<open>
  How a Go call can end: it returns, or it panics with a message. A goroutine that blocks
  for ever is a separate case of \<open>MineRet\<close> below.
\<close>

datatype 'a outcome = Returned 'a | Panicked string

text \<open>\<open>type Address struct{ str string }\<close>: the protocol byte followed by the payload.\<close>

datatype Address = Address (str: "byte list")

definition Undef :: Address where
  "Undef = Address []"

type_synonym cid = string

text \<open>
  The fields of \<open>types.Block\<close> that \<open>MkFakeChildCore\<close> writes, and the miner address
  that a mined block carries. \<open>StateRoot\<close> is a pointer and may be nil.
\<close>

record Block =
  Parents :: "cid list"
  Height :: uint64
  ParentWeightNum :: uint64
  ParentWeightDenom :: uint64
  Nonce :: uint64
  StateRoot :: "cid option"
  Miner :: Address

text \<open>
  \<open>consensus.TipSet\<close> is a Go map from the text of a block's cid to the block. It is kept
  here as the list of its entries in the tipset's canonical (sorted by cid) order, so that
  \<open>len(base)\<close> is the length of the list.
\<close>

type_synonym TipSet = "(cid \<times> Block) list"

section \<open>The mining worker (mining/worker.go)\<close>

subsection \<open>Output\<close>

record Output =
  NewBlock :: "Block option"
  Err :: "error option"

definition NewOutput :: "Block option \<Rightarrow> error option \<Rightarrow> Output" where
  "NewOutput b e = \<lparr>NewBlock = b, Err = e\<rparr>"

subsection \<open>The context\<close>

text \<open>
  A \<open>context.Context\<close> is cancelled at most once and stays cancelled. \<open>cancelledAt\<close> is the
  logical instant of the cancellation, \<open>None\<close> when it never comes. \<open>Mine\<close> looks at the
  context at three instants: on entry, at the \<open>ctx.Err()\<close> check after the state tree has
  been fetched, and while it waits in the \<open>select\<close>.
\<close>

datatype Context = Context (cancelledAt: "nat option")

definition Canceled :: error where
  "Canceled = errors_New ''context canceled''"

definition ctx_Err :: "Context \<Rightarrow> nat \<Rightarrow> error option" where
  "ctx_Err ctx now =
     (case cancelledAt ctx of
        None \<Rightarrow> None
      | Some t \<Rightarrow> if t \<le> now then Some Canceled else None)"

definition at_entry :: nat where "at_entry = 0"
definition at_check :: nat where "at_check = 1"

text \<open>\<open>ctx.Done()\<close> becomes ready at some instant exactly when the context is ever cancelled.\<close>

definition ctx_Done_ready :: "Context \<Rightarrow> bool" where
  "ctx_Done_ready ctx = (cancelledAt ctx \<noteq> None)"

subsection \<open>Channels and the proof goroutine\<close>

text \<open>
  \<open>DoSomeWorkFunc\<close> is a \<open>func()\<close>: all that \<open>Mine\<close> can see of it is whether it comes
  back.
\<close>

datatype DoSomeWorkFunc = WorkReturns | WorkNeverReturns

text \<open>
  What the producers of an unbuffered channel do with it over its life: the values they
  send, in order, and whether they close it afterwards.
\<close>

record 'a chan =
  sends :: "'a list"
  closes :: bool

text \<open>
  \<open>v, more := <-c\<close>: the next value with \<open>more = true\<close>; on a closed and drained channel the
  zero value with \<open>more = false\<close>; otherwise the receive never becomes ready (\<open>None\<close>).
\<close>

definition recv :: "'a \<Rightarrow> 'a chan \<Rightarrow> ('a \<times> bool) option" where
  "recv zero c =
     (case sends c of
        v # _ \<Rightarrow> Some (v, True)
      | [] \<Rightarrow> if closes c then Some (zero, False) else None)"

text \<open>
  \<open>createProof\<close> makes the channel and starts a goroutine that runs \<open>createPoST()\<close> and then
  sends the challenge seed. Nothing closes the channel.
\<close>

definition createProof :: "byte list \<Rightarrow> DoSomeWorkFunc \<Rightarrow> byte list chan" where
  "createProof challengeSeed createPoST =
     (case createPoST of
        WorkReturns \<Rightarrow> \<lparr>sends = [challengeSeed], closes = False\<rparr>
      | WorkNeverReturns \<Rightarrow> \<lparr>sends = [], closes = False\<rparr>)"

text \<open>
  The two-way \<open>select\<close> of \<open>Mine\<close>. When only one case ever becomes ready it is taken; when
  neither does the goroutine blocks for ever; when both do, the race is decided by timing
  and by the runtime's random choice, which is the parameter \<open>pick\<close>.
\<close>

datatype SelectCase = CaseCtxDone | CaseProof

datatype 'a Selected = SelCtxDone | SelProof 'a bool | SelBlocks

definition select_ctx_or_proof ::
  "SelectCase \<Rightarrow> Context \<Rightarrow> 'a \<Rightarrow> 'a chan \<Rightarrow> 'a Selected" where
  "select_ctx_or_proof pick ctx zero prCh =
     (case (ctx_Done_ready ctx, recv zero prCh) of
        (False, None) \<Rightarrow> SelBlocks
      | (True, None) \<Rightarrow> SelCtxDone
      | (False, Some (v, more')) \<Rightarrow> SelProof v more'
      | (True, Some (v, more')) \<Rightarrow>
          (case pick of CaseCtxDone \<Rightarrow> SelCtxDone | CaseProof \<Rightarrow> SelProof v more'))"

subsection \<open>CreateTicket\<close>

type_synonym Signer = "byte list \<Rightarrow> Address \<Rightarrow> byte list \<times> error option"

text \<open>
  \<open>append(proof[:])\<close> with nothing to append is the slice itself, and \<open>h[:]\<close> is the whole of
  it: the signer gets the proof's bytes. A signing error is a panic.
\<close>

definition CreateTicket :: "byte list \<Rightarrow> Address \<Rightarrow> Signer \<Rightarrow> byte list outcome" where
  "CreateTicket proof minerAddr signer =
     (let buf = proof @ [];
          h = buf
      in case signer h minerAddr of
           (ticket, Some err) \<Rightarrow> Panicked (''SignBytes error in CreateTicket: '' @ Error err)
         | (ticket, None) \<Rightarrow> Returned ticket)"

subsection \<open>The worker and its collaborators\<close>

text \<open>
  The fields of \<open>DefaultWorker\<close> that \<open>Mine\<close> and \<open>CreateTicket\<close> read. \<open>'st\<close> is
  \<open>state.Tree\<close>. The message pool, processor, power table, block store and cbor store are
  only handed on to \<open>IsWinningTicket\<close> and \<open>Generate\<close>, which are parameters below.
\<close>

record 'st DefaultWorker =
  createPoSTFunc :: DoSomeWorkFunc
  minerAddr :: Address
  signer :: Signer
  getStateTree :: "Context \<Rightarrow> TipSet \<Rightarrow> 'st \<times> error option"
  getWeight :: "Context \<Rightarrow> TipSet \<Rightarrow> uint64 \<times> error option"

text \<open>
  What \<open>Mine\<close> calls but the given sources do not define, taken as parameters:
  \<open>consensus.CreateChallengeSeed\<close>, \<open>consensus.IsWinningTicket\<close> (with the worker's block
  store and power table fixed), the worker's \<open>Generate\<close>, the text
  \<open>next.Cid().String()\<close> of a block pointer that may be nil (\<open>None\<close> when evaluating it
  faults), and the length of the array type \<open>proofs.PoStProof\<close>.
\<close>

record 'st Collaborators =
  CreateChallengeSeed :: "TipSet \<Rightarrow> uint64 \<Rightarrow> byte list \<times> error option"
  IsWinningTicket :: "Context \<Rightarrow> 'st \<Rightarrow> byte list \<Rightarrow> Address \<Rightarrow> bool \<times> error option"
  Generate :: "Context \<Rightarrow> TipSet \<Rightarrow> byte list \<Rightarrow> byte list \<Rightarrow> uint64
                 \<Rightarrow> Block option \<times> error option"
  CidString :: "Block option \<Rightarrow> string option"
  PoStProofLen :: nat

text \<open>
  Go's \<open>copy(dst, src)\<close>: the first \<open>min (len dst) (len src)\<close> elements of \<open>src\<close> overwrite
  those of \<open>dst\<close>.
\<close>

definition copy :: "'a list \<Rightarrow> 'a list \<Rightarrow> 'a list" where
  "copy dst src = take (length dst) src @ drop (length src) dst"

subsection \<open>Mine\<close>

text \<open>
  How a call of \<open>Mine\<close> ends: it returns its boolean, it panics, or it never comes back
  from the \<open>select\<close>.
\<close>

datatype MineRet = Ret bool | Panics string | BlocksForever

text \<open>The statement by which a run leaves \<open>Mine\<close>, named after what the code tests there.\<close>

datatype Exit =
    EmptyTipSet            \<comment> \<open>\<open>len(base) == 0\<close>\<close>
  | StateTreeError         \<comment> \<open>\<open>getStateTree\<close> failed\<close>
  | CancelledBeforeProof   \<comment> \<open>\<open>ctx.Err() != nil\<close>\<close>
  | ChallengeError         \<comment> \<open>\<open>CreateChallengeSeed\<close> failed\<close>
  | CancelledAwaitingProof \<comment> \<open>\<open>case <-ctx.Done()\<close>\<close>
  | ProofChannelClosed     \<comment> \<open>\<open>!more\<close>\<close>
  | SignerPanic            \<comment> \<open>the panic of \<open>CreateTicket\<close>\<close>
  | WinCheckError          \<comment> \<open>\<open>IsWinningTicket\<close> failed\<close>
  | WinnerBranch           \<comment> \<open>\<open>if weHaveAWinner\<close>\<close>
  | NotWinner              \<comment> \<open>the final \<open>return false\<close>\<close>
  | NeverLeaves            \<comment> \<open>blocked in the \<open>select\<close>\<close>

text \<open>
  One run of \<open>Mine\<close>: how it ends, the Outputs it has sent on \<open>outCh\<close> in order (a receiver
  is assumed to take each one), and where it left.
\<close>

record MineRun =
  ret :: MineRet
  sent :: "Output list"
  leftAt :: Exit

text \<open>The winner branch: \<open>Generate\<close>, the debug line that prints the block's cid, the send.\<close>

definition Mine_winner ::
  "'st Collaborators \<Rightarrow> Context \<Rightarrow> TipSet \<Rightarrow> byte list \<Rightarrow> byte list \<Rightarrow> uint64 \<Rightarrow> MineRun" where
  "Mine_winner cs ctx base ticket proof nullBlkCount =
     (case Generate cs ctx base ticket proof nullBlkCount of
        (next, err) \<Rightarrow>
          (case CidString cs next of
             None \<Rightarrow> \<lparr>ret = Panics ''invalid memory address or nil pointer dereference'',
                      sent = [], leftAt = WinnerBranch\<rparr>
           | Some _ \<Rightarrow> \<lparr>ret = Ret True, sent = [NewOutput next err], leftAt = WinnerBranch\<rparr>))"

text \<open>From the received proof to the end of \<open>Mine\<close>.\<close>

definition Mine_elect ::
  "'st DefaultWorker \<Rightarrow> 'st Collaborators \<Rightarrow> Context \<Rightarrow> TipSet \<Rightarrow> int \<Rightarrow> 'st \<Rightarrow> byte list
     \<Rightarrow> MineRun" where
  "Mine_elect w cs ctx base nullBlkCount st prChRead =
     (let proof = copy (replicate (PoStProofLen cs) 0) prChRead
      in case CreateTicket proof (minerAddr w) (signer w) of
           Panicked msg \<Rightarrow> \<lparr>ret = Panics msg, sent = [], leftAt = SignerPanic\<rparr>
         | Returned ticket \<Rightarrow>
             (case IsWinningTicket cs ctx st ticket (minerAddr w) of
                (weHaveAWinner, Some err) \<Rightarrow>
                  \<lparr>ret = Ret False, sent = [\<lparr>NewBlock = None, Err = Some err\<rparr>],
                   leftAt = WinCheckError\<rparr>
              | (weHaveAWinner, None) \<Rightarrow>
                  if weHaveAWinner
                  then Mine_winner cs ctx base ticket proof (of_int nullBlkCount)
                  else \<lparr>ret = Ret False, sent = [], leftAt = NotWinner\<rparr>))"

text \<open>What \<open>Mine\<close> does with the result of its \<open>select\<close>.\<close>

definition Mine_selected ::
  "'st DefaultWorker \<Rightarrow> 'st Collaborators \<Rightarrow> Context \<Rightarrow> TipSet \<Rightarrow> int \<Rightarrow> 'st
     \<Rightarrow> byte list Selected \<Rightarrow> MineRun" where
  "Mine_selected w cs ctx base nullBlkCount st sel =
     (case sel of
        SelBlocks \<Rightarrow> \<lparr>ret = BlocksForever, sent = [], leftAt = NeverLeaves\<rparr>
      | SelCtxDone \<Rightarrow> \<lparr>ret = Ret False, sent = [], leftAt = CancelledAwaitingProof\<rparr>
      | SelProof prChRead more' \<Rightarrow>
          if \<not> more'
          then \<lparr>ret = Ret False, sent = [], leftAt = ProofChannelClosed\<rparr>
          else Mine_elect w cs ctx base nullBlkCount st prChRead)"

definition Mine ::
  "'st DefaultWorker \<Rightarrow> 'st Collaborators \<Rightarrow> SelectCase \<Rightarrow> Context \<Rightarrow> TipSet \<Rightarrow> int
     \<Rightarrow> MineRun" where
  "Mine w cs pick ctx base nullBlkCount =
     (if length base = 0
      then \<lparr>ret = Ret False,
            sent = [\<lparr>NewBlock = None,
                     Err = Some (errors_New ''bad input tipset with no blocks sent to Mine()'')\<rparr>],
            leftAt = EmptyTipSet\<rparr>
      else
        (case getStateTree w ctx base of
           (st, Some err) \<Rightarrow>
             \<lparr>ret = Ret False, sent = [\<lparr>NewBlock = None, Err = Some err\<rparr>],
              leftAt = StateTreeError\<rparr>
         | (st, None) \<Rightarrow>
             if ctx_Err ctx at_check \<noteq> None
             then \<lparr>ret = Ret False, sent = [], leftAt = CancelledBeforeProof\<rparr>
             else
               (case CreateChallengeSeed cs base (of_int nullBlkCount) of
                  (challenge, Some err) \<Rightarrow>
                    \<lparr>ret = Ret False, sent = [\<lparr>NewBlock = None, Err = Some err\<rparr>],
                     leftAt = ChallengeError\<rparr>
                | (challenge, None) \<Rightarrow>
                    Mine_selected w cs ctx base nullBlkCount st
                      (select_ctx_or_proof pick ctx (replicate (length challenge) 0)
                         (createProof challenge (createPoSTFunc w))))))"


section \<open>Building a child block (chain/testing.go)\<close>

definition ErrEmptyTipSet :: error where
  "ErrEmptyTipSet = errors_New ''empty tipset''"

text \<open>
  Modelled from the spec: \<open>consensus.TipSet\<close>'s \<open>Height\<close> is declared outside the given
  sources. The spec has \<open>Height(TipSet) -> integer\<close>, the shared height of the members; the
  caller's \<open>pHeight, err := parent.Height()\<close> shows that it can fail, and the spec's tipset
  is never empty, so the empty tipset is the failure.
\<close>

definition TipSet_Height :: "TipSet \<Rightarrow> uint64 \<times> error option" where
  "TipSet_Height ts =
     (case ts of
        [] \<Rightarrow> (0, Some ErrEmptyTipSet)
      | (c, b) # _ \<Rightarrow> (Height b, None))"

text \<open>
  Modelled from the spec: \<open>ToSortedCidSet\<close> and \<open>ToSlice\<close> are declared outside the given
  sources. The spec gives a tipset a deterministic iteration order by identifier and takes
  the sorted set of member identifiers as its identity; the list that stands for the tipset
  is held in that order.
\<close>

definition ToSortedCidSet :: "TipSet \<Rightarrow> cid list" where
  "ToSortedCidSet ts = map fst ts"

definition ToSlice :: "TipSet \<Rightarrow> Block list" where
  "ToSlice ts = map snd ts"

text \<open>
  \<open>MkFakeChildCore\<close>. The result is Go's pair of a block pointer and an error;
  \<open>parent.ToSlice()[0]\<close> panics on an empty slice. \<open>genCid\<close> is not read. The fields
  that the block literal leaves out keep their zero values.
\<close>

definition MkFakeChildCore ::
  "TipSet \<Rightarrow> cid option \<Rightarrow> cid option \<Rightarrow> uint64 \<Rightarrow> uint64
     \<Rightarrow> (TipSet \<Rightarrow> uint64 \<times> uint64 \<times> error option)
     \<Rightarrow> (Block option \<times> error option) outcome" where
  "MkFakeChildCore parent genCid stateRoot nonce nullBlockCount wFun =
     (case wFun parent of
        (nW, dW, Some err) \<Rightarrow> Returned (None, Some err)
      | (nW, dW, None) \<Rightarrow>
          (case TipSet_Height parent of
             (pHeight, Some err) \<Rightarrow> Returned (None, Some err)
           | (pHeight, None) \<Rightarrow>
               let height = pHeight + 1 + nullBlockCount;
                   pIDs = ToSortedCidSet parent;
                   blk = (\<lambda>root. \<lparr>Parents = pIDs, Height = height, ParentWeightNum = nW,
                                   ParentWeightDenom = dW, Nonce = nonce, StateRoot = root,
                                   Miner = Undef\<rparr>)
               in (case stateRoot of
                     Some r \<Rightarrow> Returned (Some (blk (Some r)), None)
                   | None \<Rightarrow>
                       (case ToSlice parent of
                          [] \<Rightarrow> Panicked ''index out of range''
                        | b # _ \<Rightarrow> Returned (Some (blk (StateRoot b)), None)))))"

text \<open>
  \<open>MkFakeChildWithCon\<close>: the weight function asks the consensus protocol for the weight of
  \<open>parent\<close>, whatever tipset it is given. \<open>Weight\<close> is the protocol's method, a parameter
  here; it returns numerator, denominator and error.
\<close>

definition MkFakeChildWithCon ::
  "TipSet \<Rightarrow> cid option \<Rightarrow> cid option \<Rightarrow> uint64 \<Rightarrow> uint64
     \<Rightarrow> (TipSet \<Rightarrow> uint64 \<times> uint64 \<times> error option)
     \<Rightarrow> (Block option \<times> error option) outcome" where
  "MkFakeChildWithCon parent genCid stateRoot nonce nullBlockCount con_Weight =
     (let wFun = (\<lambda>ts. con_Weight parent)
      in MkFakeChildCore parent genCid stateRoot nonce nullBlockCount wFun)"


section \<open>Addresses and their text form (package address)\<close>

type_synonym Network = byte
type_synonym Protocol = byte

definition Mainnet :: Network where "Mainnet = 0"
definition Testnet :: Network where "Testnet = 1"

definition MainnetPrefix :: string where "MainnetPrefix = ''f''"
definition TestnetPrefix :: string where "TestnetPrefix = ''t''"

definition ID :: Protocol where "ID = 0"
definition SECP256K1 :: Protocol where "SECP256K1 = 1"
definition Actor :: Protocol where "Actor = 2"
definition BLS :: Protocol where "BLS = 3"

text \<open>
  The package's error values. Their texts are declared outside the given sources; each is
  stood for by its name.
\<close>

definition ErrUnknownNetwork :: error where
  "ErrUnknownNetwork = errors_New ''ErrUnknownNetwork''"
definition ErrUnknownProtocol :: error where
  "ErrUnknownProtocol = errors_New ''ErrUnknownProtocol''"
definition ErrInvalidPayload :: error where
  "ErrInvalidPayload = errors_New ''ErrInvalidPayload''"
definition ErrInvalidLength :: error where
  "ErrInvalidLength = errors_New ''ErrInvalidLength''"
definition ErrInvalidChecksum :: error where
  "ErrInvalidChecksum = errors_New ''ErrInvalidChecksum''"

text \<open>The two blake2b configurations of the package, by name.\<close>

datatype HashConfig = checksumHashConfig | payloadHashConfig

text \<open>
  What the address code uses but the given sources do not define, taken as parameters: the
  package's constants, the blake2b hash under a configuration, the base32
  \<open>AddressEncoding.WithPadding(-1)\<close>, and the leb128 coder (whose decoder may fault on a
  byte string that is not an encoding).
\<close>

record AddressEnv =
  EmptyAddressString :: string
  MaxAddressStringLength :: nat
  PayloadHashLength :: nat
  ChecksumHashLength :: nat
  PublicKeyBytes :: nat
  blake2b :: "HashConfig \<Rightarrow> byte list \<Rightarrow> byte list"
  EncodeToString :: "byte list \<Rightarrow> string"
  DecodeString :: "string \<Rightarrow> byte list \<times> error option"
  FromUInt64 :: "uint64 \<Rightarrow> byte list"
  ToUInt64 :: "byte list \<Rightarrow> uint64 outcome"

subsection \<open>Decimal text: \<open>fmt.Sprintf("%d", n)\<close> and \<open>strconv.ParseUint(s, 10, 64)\<close>\<close>

definition digit_char :: "nat \<Rightarrow> char" where
  "digit_char d = ''0123456789'' ! (d mod 10)"

function Sprintf_d :: "nat \<Rightarrow> string" where
  "Sprintf_d n = (if n < 10 then [digit_char n] else Sprintf_d (n div 10) @ [digit_char (n mod 10)])"
  by pat_completeness auto
termination
  by (relation "measure (\<lambda>n. n)") auto

declare Sprintf_d.simps [simp del]

definition digit_val :: "char \<Rightarrow> nat option" where
  "digit_val c =
     (let k = (of_char c :: nat)
      in if of_char CHR ''0'' \<le> k \<and> k \<le> of_char CHR ''9''
         then Some (k - of_char CHR ''0'') else None)"

definition ErrSyntax :: error where "ErrSyntax = errors_New ''invalid syntax''"
definition ErrRange :: error where "ErrRange = errors_New ''value out of range''"

text \<open>
  The digits are read left to right; a character that is not a digit is a syntax error and
  a value above \<open>2^64 - 1\<close> a range error.
\<close>

fun parse_digits :: "nat \<Rightarrow> string \<Rightarrow> error + nat" where
  "parse_digits n [] = Inr n"
| "parse_digits n (c # cs) =
     (case digit_val c of
        None \<Rightarrow> Inl ErrSyntax
      | Some d \<Rightarrow> if n * 10 + d > 2 ^ 64 - 1 then Inl ErrRange else parse_digits (n * 10 + d) cs)"

definition ParseUint :: "string \<Rightarrow> uint64 \<times> error option" where
  "ParseUint s =
     (if s = [] then (0, Some ErrSyntax)
      else case parse_digits 0 s of
             Inl err \<Rightarrow> (0, Some err)
           | Inr n \<Rightarrow> (of_nat n, None))"

subsection \<open>Address methods and constructors\<close>

definition Protocol :: "Address \<Rightarrow> Protocol outcome" where
  "Protocol a = (case str a of [] \<Rightarrow> Panicked ''index out of range'' | p # _ \<Rightarrow> Returned p)"

definition Payload :: "Address \<Rightarrow> byte list outcome" where
  "Payload a = (case str a of [] \<Rightarrow> Panicked ''slice bounds out of range'' | _ # pl \<Rightarrow> Returned pl)"

definition Bytes :: "Address \<Rightarrow> byte list" where
  "Bytes a = str a"

definition Equal :: "Address \<Rightarrow> Address \<Rightarrow> bool" where
  "Equal a b = (Bytes a = Bytes b)"

definition hash :: "AddressEnv \<Rightarrow> byte list \<Rightarrow> HashConfig \<Rightarrow> byte list" where
  "hash E ingest cfg = blake2b E cfg ingest"

definition Checksum :: "AddressEnv \<Rightarrow> byte list \<Rightarrow> byte list" where
  "Checksum E ingest = hash E ingest checksumHashConfig"

definition ValidateChecksum :: "AddressEnv \<Rightarrow> byte list \<Rightarrow> byte list \<Rightarrow> bool" where
  "ValidateChecksum E ingest expect = (let digest = Checksum E ingest in digest = expect)"

definition addressHash :: "AddressEnv \<Rightarrow> byte list \<Rightarrow> byte list" where
  "addressHash E ingest = hash E ingest payloadHashConfig"

definition newAddress :: "AddressEnv \<Rightarrow> Protocol \<Rightarrow> byte list \<Rightarrow> Address \<times> error option" where
  "newAddress E protocol payload =
     (if protocol = ID then (Address (protocol # payload), None)
      else if protocol = SECP256K1 \<or> protocol = Actor then
        (if length payload \<noteq> PayloadHashLength E then (Undef, Some ErrInvalidPayload)
         else (Address (protocol # payload), None))
      else if protocol = BLS then
        (if length payload \<noteq> PublicKeyBytes E then (Undef, Some ErrInvalidPayload)
         else (Address (protocol # payload), None))
      else (Undef, Some ErrUnknownProtocol))"

definition NewIDAddress :: "AddressEnv \<Rightarrow> uint64 \<Rightarrow> Address \<times> error option" where
  "NewIDAddress E id' = newAddress E ID (FromUInt64 E id')"

definition NewSecp256k1Address :: "AddressEnv \<Rightarrow> byte list \<Rightarrow> Address \<times> error option" where
  "NewSecp256k1Address E pubkey = newAddress E SECP256K1 (addressHash E pubkey)"

definition NewActorAddress :: "AddressEnv \<Rightarrow> byte list \<Rightarrow> Address \<times> error option" where
  "NewActorAddress E data = newAddress E Actor (addressHash E data)"

definition NewBLSAddress :: "AddressEnv \<Rightarrow> byte list \<Rightarrow> Address \<times> error option" where
  "NewBLSAddress E pubkey = newAddress E BLS pubkey"

definition NewFromBytes :: "AddressEnv \<Rightarrow> byte list \<Rightarrow> Address \<times> error option" where
  "NewFromBytes E addr =
     (case addr of
        [] \<Rightarrow> (Undef, None)
      | [p] \<Rightarrow> (Undef, Some ErrInvalidLength)
      | p # rest \<Rightarrow> newAddress E p rest)"

subsection \<open>encode, String, decode\<close>

text \<open>
  \<open>encode\<close>. An address other than \<open>Undef\<close> has a first byte, so \<open>Protocol()\<close> and
  \<open>Payload()\<close> are its head and tail.
\<close>

definition encode :: "AddressEnv \<Rightarrow> Network \<Rightarrow> Address \<Rightarrow> (string \<times> error option) outcome" where
  "encode E network addr =
     (case str addr of
        [] \<Rightarrow> Returned (EmptyAddressString E, None)
      | protocol # payload \<Rightarrow>
          if network \<noteq> Mainnet \<and> network \<noteq> Testnet
          then Returned (EmptyAddressString E, Some ErrUnknownNetwork)
          else
            let ntwk = (if network = Mainnet then MainnetPrefix else TestnetPrefix) in
            if protocol = SECP256K1 \<or> protocol = Actor \<or> protocol = BLS then
              let cksm = Checksum E ([protocol] @ payload)
              in Returned (ntwk @ Sprintf_d (unat protocol) @ EncodeToString E (payload @ cksm), None)
            else if protocol = ID then
              (case ToUInt64 E payload of
                 Panicked msg \<Rightarrow> Panicked msg
               | Returned n \<Rightarrow> Returned (ntwk @ Sprintf_d (unat protocol) @ Sprintf_d (unat n), None))
            else Returned (EmptyAddressString E, Some ErrUnknownProtocol))"

definition String :: "AddressEnv \<Rightarrow> Address \<Rightarrow> string outcome" where
  "String E a =
     (case encode E Testnet a of
        Panicked msg \<Rightarrow> Panicked msg
      | Returned (s, Some err) \<Rightarrow> Panicked (Error err)
      | Returned (s, None) \<Rightarrow> Returned s)"

definition protocol_of_char :: "char \<Rightarrow> Protocol option" where
  "protocol_of_char c =
     (if c = CHR ''0'' then Some ID
      else if c = CHR ''1'' then Some SECP256K1
      else if c = CHR ''2'' then Some Actor
      else if c = CHR ''3'' then Some BLS
      else None)"

text \<open>
  \<open>decode\<close>. Slicing \<open>payloadcksm\<close> below zero panics when the decoded bytes are shorter
  than a checksum.
\<close>

definition decode :: "AddressEnv \<Rightarrow> string \<Rightarrow> (Address \<times> error option) outcome" where
  "decode E a =
     (if length a = 0 then Returned (Undef, None)
      else if a = EmptyAddressString E then Returned (Undef, None)
      else if length a > MaxAddressStringLength E \<or> length a < 3
        then Returned (Undef, Some ErrInvalidLength)
      else if [a ! 0] \<noteq> MainnetPrefix \<and> [a ! 0] \<noteq> TestnetPrefix
        then Returned (Undef, Some ErrUnknownNetwork)
      else
        (case protocol_of_char (a ! 1) of
           None \<Rightarrow> Returned (Undef, Some ErrUnknownProtocol)
         | Some protocol \<Rightarrow>
             let raw = drop 2 a in
             if protocol = ID then
               (case ParseUint raw of
                  (id', Some err) \<Rightarrow> Returned (Undef, Some ErrInvalidPayload)
                | (id', None) \<Rightarrow> Returned (newAddress E protocol (FromUInt64 E id')))
             else
               (case DecodeString E raw of
                  (payloadcksm, Some err) \<Rightarrow> Returned (Undef, Some err)
                | (payloadcksm, None) \<Rightarrow>
                    if length payloadcksm < ChecksumHashLength E
                    then Panicked ''slice bounds out of range''
                    else
                      (let payload = take (length payloadcksm - ChecksumHashLength E) payloadcksm;
                           cksm = drop (length payloadcksm - ChecksumHashLength E) payloadcksm
                       in if (protocol = SECP256K1 \<or> protocol = Actor) \<and> length payload \<noteq> 20
                          then Returned (Undef, Some ErrInvalidPayload)
                          else if \<not> ValidateChecksum E ([protocol] @ payload) cksm
                          then Returned (Undef, Some ErrInvalidChecksum)
                          else Returned (newAddress E protocol payload)))))"

definition NewFromString :: "AddressEnv \<Rightarrow> string \<Rightarrow> (Address \<times> error option) outcome" where
  "NewFromString E addr = decode E addr"


section \<open>Sample workers, collaborators and tipsets\<close>

text \<open>A signer in the style of a mock: the signature is the address followed by the data.\<close>

definition mockSigner :: Signer where
  "mockSigner data addr = (str addr @ data, None)"

definition mockVerify :: "Address \<Rightarrow> byte list \<Rightarrow> byte list \<Rightarrow> bool" where
  "mockVerify addr data sig = (sig = str addr @ data)"

definition brokenSigner :: Signer where
  "brokenSigner data addr = ([], Some (errors_New ''unknown address''))"

definition testMiner :: Address where
  "testMiner = Address [0, 7]"

definition testBlock :: Block where
  "testBlock = \<lparr>Parents = [''genesis''], Height = 5, ParentWeightNum = 10,
                 ParentWeightDenom = 1, Nonce = 0, StateRoot = Some ''root5'', Miner = Undef\<rparr>"

definition testTipSet :: TipSet where
  "testTipSet = [(''blk5'', testBlock)]"

text \<open>A state-tree getter that honours the context, and one that does not look at it.\<close>

definition getStateTreeHonouringCtx :: "Context \<Rightarrow> TipSet \<Rightarrow> unit \<times> error option" where
  "getStateTreeHonouringCtx ctx ts = ((), ctx_Err ctx at_entry)"

definition getStateTreeAlways :: "Context \<Rightarrow> TipSet \<Rightarrow> unit \<times> error option" where
  "getStateTreeAlways ctx ts = ((), None)"

definition testWorker :: "unit DefaultWorker" where
  "testWorker = \<lparr>createPoSTFunc = WorkReturns, minerAddr = testMiner, signer = mockSigner,
                  getStateTree = getStateTreeAlways,
                  getWeight = (\<lambda>ctx ts. (10, None))\<rparr>"

definition testChild :: Block where
  "testChild = \<lparr>Parents = [''blk5''], Height = 8, ParentWeightNum = 12,
                 ParentWeightDenom = 1, Nonce = 0, StateRoot = Some ''root8'', Miner = testMiner\<rparr>"

text \<open>
  Collaborators whose election answers \<open>win\<close> and whose \<open>Generate\<close> answers \<open>gen\<close>; the
  cid of any block pointer, nil or not, can be printed.
\<close>

definition testCollaborators ::
  "bool \<Rightarrow> Block option \<times> error option \<Rightarrow> unit Collaborators" where
  "testCollaborators win gen =
     \<lparr>CreateChallengeSeed = (\<lambda>ts n. (replicate 4 1, None)),
      IsWinningTicket = (\<lambda>ctx st ticket addr. (win, None)),
      Generate = (\<lambda>ctx ts ticket proof n. gen),
      CidString = (\<lambda>b. Some ''cid''),
      PoStProofLen = 6\<rparr>"

definition testWeight :: "TipSet \<Rightarrow> uint64 \<times> uint64 \<times> error option" where
  "testWeight ts = (12, 1, None)"

text \<open>
  A stand-in address environment: the leb128 coder on numbers, one character per byte in
  place of base32, and sums in place of blake2b.
\<close>

function leb128_enc :: "nat \<Rightarrow> byte list" where
  "leb128_enc n =
     (if n < 128 then [of_nat n] else of_nat (n mod 128 + 128) # leb128_enc (n div 128))"
  by pat_completeness auto
termination
  by (relation "measure (\<lambda>n. n)") auto

declare leb128_enc.simps [simp del]

fun leb128_dec :: "byte list \<Rightarrow> nat outcome" where
  "leb128_dec [] = Panicked ''index out of range''"
| "leb128_dec (b # bs) =
     (if unat b < 128 then Returned (unat b)
      else case leb128_dec bs of
             Panicked msg \<Rightarrow> Panicked msg
           | Returned m \<Rightarrow> Returned (unat b - 128 + 128 * m))"

definition testHash :: "HashConfig \<Rightarrow> byte list \<Rightarrow> byte list" where
  "testHash cfg ingest =
     (case cfg of
        checksumHashConfig \<Rightarrow> [of_nat (length ingest), sum_list ingest, 0, 1]
      | payloadHashConfig \<Rightarrow> replicate 20 (sum_list ingest))"

definition testEnv :: AddressEnv where
  "testEnv =
     \<lparr>EmptyAddressString = ''<empty>'', MaxAddressStringLength = 86, PayloadHashLength = 20,
      ChecksumHashLength = 4, PublicKeyBytes = 48, blake2b = testHash,
      EncodeToString = map (\<lambda>b. char_of (unat b)),
      DecodeString = (\<lambda>s. (map (\<lambda>c. of_nat (of_char c)) s, None)),
      FromUInt64 = (\<lambda>w. leb128_enc (unat w)),
      ToUInt64 = (\<lambda>bs. case leb128_dec bs of
                          Panicked msg \<Rightarrow> Panicked msg
                        | Returned n \<Rightarrow> Returned (of_nat n))\<rparr>"

definition testIDAddress :: Address where
  "testIDAddress = Address [0, 172, 2]"

definition testSecpAddress :: Address where
  "testSecpAddress = Address (1 # replicate 20 5)"


section \<open>Properties of Mine\<close>

lemma Mine_winner_sent: "length (sent (Mine_winner cs ctx base ticket proof n)) \<le> Suc 0"
  by (simp add: Mine_winner_def split: prod.split option.split)

lemma Mine_elect_sent: "length (sent (Mine_elect w cs ctx base n st v)) \<le> Suc 0"
  by (simp add: Mine_elect_def Let_def Mine_winner_sent split: outcome.split prod.split option.split)

lemma Mine_selected_sent: "length (sent (Mine_selected w cs ctx base n st sel)) \<le> Suc 0"
  by (simp add: Mine_selected_def Mine_elect_sent split: Selected.split)

lemma Mine_sent_le: "length (sent (Mine w cs pick ctx base n)) \<le> Suc 0"
  by (simp add: Mine_def Mine_selected_sent split: prod.split option.split)

lemma Mine_winner_leftAt: "leftAt (Mine_winner cs ctx base ticket proof n) = WinnerBranch"
  by (simp add: Mine_winner_def split: prod.split option.split)

lemma Mine_elect_silent:
  "leftAt (Mine_elect w cs ctx base n st v) = NotWinner
     \<Longrightarrow> sent (Mine_elect w cs ctx base n st v) = []"
  by (auto simp: Mine_elect_def Let_def Mine_winner_leftAt
      split: outcome.splits prod.splits option.splits if_splits)

lemma Mine_elect_not_cancelled:
  "leftAt (Mine_elect w cs ctx base n st v)
     \<notin> {CancelledBeforeProof, CancelledAwaitingProof, ProofChannelClosed}"
  by (auto simp: Mine_elect_def Let_def Mine_winner_leftAt
      split: outcome.splits prod.splits option.splits if_splits)

lemma Mine_selected_silent:
  "leftAt (Mine_selected w cs ctx base n st sel) \<in> {CancelledAwaitingProof, NotWinner}
     \<Longrightarrow> sent (Mine_selected w cs ctx base n st sel) = []"
  using Mine_elect_not_cancelled [of w cs ctx base n st]
  by (auto simp: Mine_selected_def Mine_elect_silent split: Selected.splits if_splits)

lemma Mine_selected_not_before:
  "leftAt (Mine_selected w cs ctx base n st sel) \<noteq> CancelledBeforeProof"
  using Mine_elect_not_cancelled [of w cs ctx base n st]
  by (auto simp: Mine_selected_def split: Selected.splits if_splits)

lemma Mine_ctx_Err_mono: "ctx_Err ctx at_entry \<noteq> None \<Longrightarrow> ctx_Err ctx at_check \<noteq> None"
  by (auto simp: ctx_Err_def at_entry_def at_check_def split: option.splits if_splits)

lemma createProof_never_closes: "\<not> closes (createProof seed f)"
  by (simp add: createProof_def split: DoSomeWorkFunc.split)

lemma select_createProof_more:
  "select_ctx_or_proof pick ctx zero (createProof seed f) \<noteq> SelProof v False"
  by (cases f; cases pick; cases "ctx_Done_ready ctx")
    (simp_all add: select_ctx_or_proof_def createProof_def recv_def)

lemma Mine_selected_closed_iff:
  "leftAt (Mine_selected w cs ctx base n st sel) = ProofChannelClosed
     \<longleftrightarrow> (\<exists>v. sel = SelProof v False)"
  using Mine_elect_not_cancelled [of w cs ctx base n st]
  by (auto simp: Mine_selected_def split: Selected.splits)

lemma Mine_never_ProofChannelClosed:
  "leftAt (Mine w cs pick ctx base n) \<noteq> ProofChannelClosed"
  by (auto simp: Mine_def Mine_selected_closed_iff select_createProof_more
      split: prod.splits option.splits)

text \<open>When the signer fails, \<open>Mine\<close> ends in the panic of \<open>CreateTicket\<close> and has sent nothing.\<close>

lemma Mine_elect_signer_panics:
  assumes "snd (signer w (copy (replicate (PoStProofLen cs) 0) v) (minerAddr w)) = Some err"
  shows "Mine_elect w cs ctx base n st v
           = \<lparr>ret = Panics (''SignBytes error in CreateTicket: '' @ Error err), sent = [],
              leftAt = SignerPanic\<rparr>"
  using assms
  by (cases "signer w (copy (replicate (PoStProofLen cs) 0) v) (minerAddr w)")
    (simp add: Mine_elect_def CreateTicket_def)

text \<open>The unfolding rules by which the sample runs are evaluated.\<close>

lemmas sample_defs = testWorker_def testCollaborators_def testTipSet_def getStateTreeAlways_def
  getStateTreeHonouringCtx_def mockSigner_def brokenSigner_def mockVerify_def testMiner_def

lemmas Mine_defs = Mine_def Mine_selected_def Mine_elect_def Mine_winner_def CreateTicket_def
  select_ctx_or_proof_def createProof_def recv_def ctx_Done_ready_def ctx_Err_def at_check_def
  at_entry_def copy_def NewOutput_def

text \<open>
  C4. With an empty base tipset \<open>Mine\<close> sends exactly one Output, whose \<open>Err\<close> is set and
  whose \<open>NewBlock\<close> is nil, and returns false.
\<close>

theorem Mine_empty_tipset:
  "Mine w cs pick ctx [] nullBlkCount
     = \<lparr>ret = Ret False,
        sent = [\<lparr>NewBlock = None,
                 Err = Some (errors_New ''bad input tipset with no blocks sent to Mine()'')\<rparr>],
        leftAt = EmptyTipSet\<rparr>"
  by (simp add: Mine_def)

text \<open>
  C1. A call of \<open>Mine\<close> sends at most one Output, and none at all when it leaves by one of
  the two cancellation returns or by the final not-a-winner return.
\<close>

theorem Mine_at_most_one_Output:
  "length (sent (Mine w cs pick ctx base n)) \<le> 1
   \<and> (leftAt (Mine w cs pick ctx base n)
         \<in> {CancelledBeforeProof, CancelledAwaitingProof, NotWinner}
       \<longrightarrow> sent (Mine w cs pick ctx base n) = [])"
proof
  show "length (sent (Mine w cs pick ctx base n)) \<le> 1"
    using Mine_sent_le [of w cs pick ctx base n] by simp
next
  show "leftAt (Mine w cs pick ctx base n)
          \<in> {CancelledBeforeProof, CancelledAwaitingProof, NotWinner}
        \<longrightarrow> sent (Mine w cs pick ctx base n) = []"
  proof
    assume a: "leftAt (Mine w cs pick ctx base n)
                 \<in> {CancelledBeforeProof, CancelledAwaitingProof, NotWinner}"
    show "sent (Mine w cs pick ctx base n) = []"
    proof (cases "length base = 0")
      case True
      with a show ?thesis by (simp add: Mine_def)
    next
      case False
      obtain st e1 where g: "getStateTree w ctx base = (st, e1)"
        by (cases "getStateTree w ctx base")
      obtain ch e2 where c: "CreateChallengeSeed cs base (of_int n) = (ch, e2)"
        by (cases "CreateChallengeSeed cs base (of_int n)")
      from a False g c show ?thesis
        using Mine_selected_silent [of w cs ctx base n st] Mine_selected_not_before [of w cs ctx base n st]
        by (cases e1; cases e2) (auto simp: Mine_def split: if_splits)
    qed
  qed
qed

theorem Mine_at_most_one_Output_witness:
  "leftAt (Mine testWorker (testCollaborators False (Some testChild, None)) CaseProof
             (Context None) testTipSet 2) = NotWinner
   \<and> sent (Mine testWorker (testCollaborators False (Some testChild, None)) CaseProof
             (Context None) testTipSet 2) = []
   \<and> leftAt (Mine testWorker (testCollaborators True (Some testChild, None)) CaseProof
             (Context (Some 0)) testTipSet 2) = CancelledBeforeProof
   \<and> sent (Mine testWorker (testCollaborators True (Some testChild, None)) CaseProof
             (Context (Some 0)) testTipSet 2) = []
   \<and> leftAt (Mine testWorker (testCollaborators True (Some testChild, None)) CaseCtxDone
             (Context (Some 5)) testTipSet 2) = CancelledAwaitingProof
   \<and> sent (Mine testWorker (testCollaborators True (Some testChild, None)) CaseCtxDone
             (Context (Some 5)) testTipSet 2) = []"
proof -
  have a: "leftAt (Mine testWorker (testCollaborators False (Some testChild, None)) CaseProof
             (Context None) testTipSet 2) = NotWinner"
    by (simp add: Mine_defs sample_defs)
  have b: "leftAt (Mine testWorker (testCollaborators True (Some testChild, None)) CaseProof
             (Context (Some 0)) testTipSet 2) = CancelledBeforeProof"
    by (simp add: Mine_defs sample_defs)
  have c: "leftAt (Mine testWorker (testCollaborators True (Some testChild, None)) CaseCtxDone
             (Context (Some 5)) testTipSet 2) = CancelledAwaitingProof"
    by (simp add: Mine_defs sample_defs)
  show ?thesis
    using a b c
      Mine_at_most_one_Output [of testWorker "testCollaborators False (Some testChild, None)"
        CaseProof "Context None" testTipSet 2]
      Mine_at_most_one_Output [of testWorker "testCollaborators True (Some testChild, None)"
        CaseProof "Context (Some 0)" testTipSet 2]
      Mine_at_most_one_Output [of testWorker "testCollaborators True (Some testChild, None)"
        CaseCtxDone "Context (Some 5)" testTipSet 2]
    by simp
qed

text \<open>
  C2. When \<open>Mine\<close> reaches the winner branch, that is, every earlier step has succeeded
  and \<open>IsWinningTicket\<close> has returned true with no error, it calls \<open>Generate\<close> on the base
  tipset, the ticket, the proof and the null block count, sends exactly one Output that
  carries what \<open>Generate\<close> returned (the block, or the error), and returns true. The debug
  line before the send prints \<open>next.Cid().String()\<close>; the statement is for the runs on
  which that text can be produced.
\<close>

theorem Mine_winner_branch:
  assumes "base \<noteq> []"
    and "getStateTree w ctx base = (st, None)"
    and "ctx_Err ctx at_check = None"
    and "CreateChallengeSeed cs base (of_int n) = (challenge, None)"
    and "select_ctx_or_proof pick ctx (replicate (length challenge) 0)
           (createProof challenge (createPoSTFunc w)) = SelProof prChRead True"
    and "CreateTicket (copy (replicate (PoStProofLen cs) 0) prChRead) (minerAddr w) (signer w)
           = Returned ticket"
    and "IsWinningTicket cs ctx st ticket (minerAddr w) = (True, None)"
    and "Generate cs ctx base ticket (copy (replicate (PoStProofLen cs) 0) prChRead) (of_int n)
           = (next, err)"
    and "CidString cs next \<noteq> None"
  shows "Mine w cs pick ctx base n
           = \<lparr>ret = Ret True, sent = [\<lparr>NewBlock = next, Err = err\<rparr>], leftAt = WinnerBranch\<rparr>"
  using assms
  by (auto simp: Mine_def Mine_selected_def Mine_elect_def Mine_winner_def NewOutput_def)

theorem Mine_winner_branch_witness:
  "Mine testWorker (testCollaborators True (Some testChild, None)) CaseProof (Context None)
     testTipSet 2
     = \<lparr>ret = Ret True, sent = [\<lparr>NewBlock = Some testChild, Err = None\<rparr>],
        leftAt = WinnerBranch\<rparr>
   \<and> Mine testWorker (testCollaborators True (None, Some (errors_New ''assembly failed'')))
       CaseProof (Context None) testTipSet 2
     = \<lparr>ret = Ret True,
        sent = [\<lparr>NewBlock = None, Err = Some (errors_New ''assembly failed'')\<rparr>],
        leftAt = WinnerBranch\<rparr>"
proof -
  have ok: "Mine testWorker (testCollaborators True g) CaseProof (Context None) testTipSet 2
              = \<lparr>ret = Ret True, sent = [\<lparr>NewBlock = fst g, Err = snd g\<rparr>],
                 leftAt = WinnerBranch\<rparr>" for g
    by (rule Mine_winner_branch
          [where st = "()" and challenge = "replicate 4 1" and prChRead = "replicate 4 1"
             and ticket = "[0, 7, 1, 1, 1, 1, 0, 0]"])
       (simp_all add: Mine_defs sample_defs eval_nat_numeral)
  show ?thesis
    using ok [of "(Some testChild, None)"] ok [of "(None, Some (errors_New ''assembly failed''))"]
    by simp
qed

text \<open>
  C3, as amended. With a context that is already cancelled on entry and a base tipset that
  is not empty, \<open>Mine\<close> returns false. The state tree is fetched before the context is
  looked at: when the fetch succeeds nothing is sent, and when it fails its error is sent
  as the one Output.
\<close>

theorem Mine_cancelled_at_entry:
  assumes "ctx_Err ctx at_entry \<noteq> None" and "base \<noteq> []"
  shows "ret (Mine w cs pick ctx base n) = Ret False
         \<and> sent (Mine w cs pick ctx base n)
             = (case snd (getStateTree w ctx base) of
                  None \<Rightarrow> []
                | Some err \<Rightarrow> [\<lparr>NewBlock = None, Err = Some err\<rparr>])"
proof -
  from assms(1) have "ctx_Err ctx at_check \<noteq> None"
    by (rule Mine_ctx_Err_mono)
  with assms(2) show ?thesis
    by (cases "getStateTree w ctx base") (auto simp: Mine_def split: option.splits)
qed

theorem Mine_cancelled_at_entry_witness:
  "ctx_Err (Context (Some 0)) at_entry \<noteq> None \<and> testTipSet \<noteq> []
   \<and> ret (Mine testWorker (testCollaborators True (Some testChild, None)) CaseProof
            (Context (Some 0)) testTipSet 0) = Ret False
   \<and> sent (Mine testWorker (testCollaborators True (Some testChild, None)) CaseProof
            (Context (Some 0)) testTipSet 0) = []"
proof -
  have c: "ctx_Err (Context (Some 0)) at_entry \<noteq> None"
    by (simp add: ctx_Err_def)
  have b: "testTipSet \<noteq> []"
    by (simp add: testTipSet_def)
  show ?thesis
    using c b
      Mine_cancelled_at_entry [OF c b, of testWorker
        "testCollaborators True (Some testChild, None)" CaseProof 0]
    by (simp add: testWorker_def getStateTreeAlways_def)
qed

text \<open>
  The claim C3 as it was written fails: a state-tree getter that honours the cancelled
  context returns the context's error, and \<open>Mine\<close> sends it.
\<close>

theorem Mine_cancelled_at_entry_counterexample:
  "\<not> (ctx_Err (Context (Some 0)) at_entry \<noteq> None \<and> testTipSet \<noteq> []
        \<longrightarrow> ret (Mine (testWorker\<lparr>getStateTree := getStateTreeHonouringCtx\<rparr>)
                    (testCollaborators True (Some testChild, None)) CaseProof
                    (Context (Some 0)) testTipSet 0) = Ret False
            \<and> sent (Mine (testWorker\<lparr>getStateTree := getStateTreeHonouringCtx\<rparr>)
                    (testCollaborators True (Some testChild, None)) CaseProof
                    (Context (Some 0)) testTipSet 0) = [])"
  by (simp add: Mine_defs sample_defs)

text \<open>
  C5. When the signer's \<open>SignBytes\<close> returns an error, \<open>CreateTicket\<close> panics with the
  error's text; it does not return.
\<close>

theorem CreateTicket_panics_on_sign_error:
  assumes "snd (sg proof addr) = Some err"
  shows "CreateTicket proof addr sg = Panicked (''SignBytes error in CreateTicket: '' @ Error err)"
  using assms by (cases "sg proof addr") (simp add: CreateTicket_def)

theorem CreateTicket_panics_on_sign_error_witness:
  "snd (brokenSigner [1, 2, 3] testMiner) = Some (errors_New ''unknown address'')
   \<and> CreateTicket [1, 2, 3] testMiner brokenSigner
       = Panicked ''SignBytes error in CreateTicket: unknown address''"
proof -
  have s: "snd (brokenSigner [1, 2, 3] testMiner) = Some (errors_New ''unknown address'')"
    by (simp add: brokenSigner_def)
  show ?thesis
    using s CreateTicket_panics_on_sign_error
        [of brokenSigner "[1, 2, 3]" testMiner, OF s]
    by simp
qed

text \<open>
  C6. When \<open>SignBytes\<close> succeeds on the proof's bytes under the miner's address,
  \<open>CreateTicket\<close> returns that signature unchanged; so the ticket passes any check that
  accepts what the signer produces for the data and address it was given.
\<close>

theorem CreateTicket_signs_proof:
  assumes "sg proof addr = (sig, None)"
    and "\<And>data a s. sg data a = (s, None) \<Longrightarrow> verify a data s"
  shows "CreateTicket proof addr sg = Returned sig \<and> verify addr proof sig"
  using assms by (simp add: CreateTicket_def)

theorem CreateTicket_signs_proof_witness:
  "mockSigner [1, 2, 3] testMiner = ([0, 7, 1, 2, 3], None)
   \<and> CreateTicket [1, 2, 3] testMiner mockSigner = Returned [0, 7, 1, 2, 3]
   \<and> mockVerify testMiner [1, 2, 3] [0, 7, 1, 2, 3]"
proof -
  have s: "mockSigner [1, 2, 3] testMiner = ([0, 7, 1, 2, 3], None)"
    by (simp add: mockSigner_def testMiner_def)
  have v: "mockVerify a data s" if "mockSigner data a = (s, None)" for data a s
    using that by (auto simp: mockSigner_def mockVerify_def)
  show ?thesis
    using s CreateTicket_signs_proof
        [of mockSigner "[1, 2, 3]" testMiner "[0, 7, 1, 2, 3]" mockVerify, OF s v]
    by simp
qed



text \<open>
  The channel that \<open>Mine\<close> itself waits on is the one \<open>createProof\<close> makes. Its goroutine
  only sends the seed and nothing closes it (\<open>createProof_never_closes\<close>), so a call of
  \<open>Mine\<close> with this \<open>createProof\<close> does not leave by the \<open>!more\<close> return
  (\<open>Mine_never_ProofChannelClosed\<close>).
\<close>

section \<open>Properties of MkFakeChildCore\<close>

lemma MkFakeChildWithCon_weight:
  "MkFakeChildWithCon parent genCid stateRoot nonce n con_Weight
     = MkFakeChildCore parent genCid stateRoot nonce n (\<lambda>ts. con_Weight parent)"
  by (simp add: MkFakeChildWithCon_def)

text \<open>
  C8. For a parent tipset of height \<open>h\<close> whose weight function answers \<open>(nW, dW)\<close>, and
  any null block count \<open>n\<close>, \<open>MkFakeChildCore\<close> returns a block of height \<open>h + 1 + n\<close>
  with parent weight \<open>nW\<close> over \<open>dW\<close>. The sum is the code's sum of 64-bit unsigned
  values; it is the sum of the numbers whenever that is below \<open>2^64\<close>.
\<close>

theorem MkFakeChildCore_height_weight:
  assumes "wFun parent = (nW, dW, None)" and "TipSet_Height parent = (h, None)"
  shows "\<exists>blk. MkFakeChildCore parent genCid stateRoot nonce n wFun = Returned (Some blk, None)
           \<and> Height blk = h + 1 + n
           \<and> ParentWeightNum blk = nW \<and> ParentWeightDenom blk = dW
           \<and> (unat h + 1 + unat n < 2 ^ 64 \<longrightarrow> unat (Height blk) = unat h + 1 + unat n)"
proof -
  from assms(2) obtain c b rest where p: "parent = (c, b) # rest"
    by (cases parent) (auto simp: TipSet_Height_def)
  have u: "unat (h + 1 + n) = unat h + 1 + unat n" if "unat h + 1 + unat n < 2 ^ 64"
    using that by (simp add: unat_word_ariths)
  show ?thesis
    using assms p u
    by (cases stateRoot) (auto simp: MkFakeChildCore_def Let_def ToSlice_def)
qed

theorem MkFakeChildCore_height_weight_witness:
  "testWeight testTipSet = (12, 1, None) \<and> TipSet_Height testTipSet = (5, None)
   \<and> (\<exists>blk. MkFakeChildCore testTipSet None None 0 2 testWeight = Returned (Some blk, None)
          \<and> Height blk = 8 \<and> ParentWeightNum blk = 12 \<and> ParentWeightDenom blk = 1
          \<and> unat (Height blk) = 8)"
proof -
  have w: "testWeight testTipSet = (12, 1, None)"
    by (simp add: testWeight_def)
  have h: "TipSet_Height testTipSet = (5, None)"
    by (simp add: TipSet_Height_def testTipSet_def testBlock_def)
  show ?thesis
    using w h MkFakeChildCore_height_weight
        [where wFun = testWeight and parent = testTipSet and genCid = None
           and stateRoot = None and nonce = 0 and n = 2, OF w h]
    by auto
qed

text \<open>The height is a 64-bit sum: a null block count near \<open>2^64\<close> wraps it round.\<close>

lemma MkFakeChildCore_height_wraps:
  "MkFakeChildCore testTipSet None None 0 (- 6) testWeight
     = Returned (Some \<lparr>Parents = [''blk5''], Height = 0, ParentWeightNum = 12,
                       ParentWeightDenom = 1, Nonce = 0, StateRoot = Some ''root5'',
                       Miner = Undef\<rparr>, None)"
  by (simp add: MkFakeChildCore_def testWeight_def TipSet_Height_def testTipSet_def
      testBlock_def ToSortedCidSet_def ToSlice_def)

text \<open>
  C7. The weight function the worker holds, \<open>GetWeight\<close>, returns one \<open>uint64\<close> and an
  error, whatever the worker and the tipset; the weight function of \<open>MkFakeChildCore\<close>
  returns numerator, denominator and error.
\<close>

theorem GetWeight_yields_one_uint64:
  "\<exists>(weight :: uint64) err. getWeight w ctx base = (weight, err)"
  by (cases "getWeight w ctx base") simp


section \<open>Properties of the address text form\<close>

subsection \<open>Decimal text reads back\<close>

lemma digit_val_digit_char: "d < 10 \<Longrightarrow> digit_val (digit_char d) = Some d"
proof -
  assume "d < 10"
  then have "d = 0 \<or> d = 1 \<or> d = 2 \<or> d = 3 \<or> d = 4 \<or> d = 5 \<or> d = 6 \<or> d = 7 \<or> d = 8 \<or> d = 9"
    by arith
  then show ?thesis
    by (elim disjE) (simp_all add: digit_val_def digit_char_def)
qed

lemma parse_digits_append:
  "parse_digits n (xs @ ys) = (case parse_digits n xs of Inl e \<Rightarrow> Inl e | Inr m \<Rightarrow> parse_digits m ys)"
  by (induction xs arbitrary: n) (auto split: option.splits)

lemma parse_digits_Sprintf_d:
  "n < 2 ^ 64 \<Longrightarrow> parse_digits 0 (Sprintf_d n) = Inr n"
proof (induction n rule: Sprintf_d.induct)
  case (1 n)
  show ?case
  proof (cases "n < 10")
    case True
    then show ?thesis
      using 1(2) by (subst Sprintf_d.simps) (simp add: digit_val_digit_char)
  next
    case False
    have lt: "n div 10 < 2 ^ 64" using 1(2) by (simp add: less_mult_imp_div_less)
    have ih: "parse_digits 0 (Sprintf_d (n div 10)) = Inr (n div 10)"
      using 1(1) [OF False lt] .
    have d: "digit_val (digit_char (n mod 10)) = Some (n mod 10)"
      by (simp add: digit_val_digit_char)
    have recompose: "n div 10 * 10 + n mod 10 = n" by simp
    show ?thesis
      using False 1(2)
      by (subst Sprintf_d.simps) (simp add: parse_digits_append ih d recompose)
  qed
qed

lemma Sprintf_d_nonempty: "Sprintf_d n \<noteq> []"
  by (subst Sprintf_d.simps) simp

lemma ParseUint_Sprintf_d: "ParseUint (Sprintf_d (unat (w :: uint64))) = (w, None)"
proof -
  have "unat w < 2 ^ 64" using unsigned_less [of w] by simp
  then show ?thesis
    by (simp add: ParseUint_def Sprintf_d_nonempty parse_digits_Sprintf_d)
qed

lemma Sprintf_d_digit: "n < 10 \<Longrightarrow> Sprintf_d n = [digit_char n]"
  by (subst Sprintf_d.simps) simp

lemma Sprintf_d_protocols:
  "Sprintf_d (unat ID) = ''0''" "Sprintf_d (unat SECP256K1) = ''1''"
  "Sprintf_d (unat Actor) = ''2''" "Sprintf_d (unat BLS) = ''3''"
  by (simp_all add: ID_def SECP256K1_def Actor_def BLS_def Sprintf_d_digit digit_char_def)

lemma protocols_distinct:
  "ID \<noteq> SECP256K1" "ID \<noteq> Actor" "ID \<noteq> BLS" "SECP256K1 \<noteq> Actor" "SECP256K1 \<noteq> BLS" "Actor \<noteq> BLS"
  by (simp_all add: ID_def SECP256K1_def Actor_def BLS_def)

lemma newAddress_ok:
  assumes "newAddress E protocol payload = (a, None)"
  shows "a = Address (protocol # payload) \<and> protocol \<in> {ID, SECP256K1, Actor, BLS}"
  using assms by (auto simp: newAddress_def split: if_splits)

lemma decode_ID:
  assumes "newAddress E ID payload = (a, None)"
    and "FromUInt64 E n = payload"
    and "s = TestnetPrefix @ ''0'' @ Sprintf_d (unat n)"
    and "length s \<le> MaxAddressStringLength E" and "s \<noteq> EmptyAddressString E"
  shows "decode E s = Returned (a, None)"
proof -
  have l: "3 \<le> length s"
    using assms(3) Sprintf_d_nonempty [of "unat n"]
    by (cases "Sprintf_d (unat n)") (simp_all add: TestnetPrefix_def)
  have raw: "drop 2 s = Sprintf_d (unat n)"
    using assms(3) by (simp add: TestnetPrefix_def)
  have c0: "[s ! 0] = TestnetPrefix" and c1: "s ! 1 = CHR ''0''"
    using assms(3) by (simp_all add: TestnetPrefix_def)
  have ne: "s \<noteq> []" using l by auto
  show ?thesis
    using l ne assms(1,2,4,5) raw c0 c1
    by (simp add: decode_def Let_def protocol_of_char_def ParseUint_Sprintf_d)
qed

lemma decode_hashed:
  assumes "newAddress E protocol payload = (a, None)"
    and "protocol \<noteq> ID" and "protocol_of_char c = Some protocol"
    and "s = TestnetPrefix @ [c] @ EncodeToString E (payload @ cksm)"
    and "cksm = Checksum E ([protocol] @ payload)"
    and "DecodeString E (EncodeToString E (payload @ cksm)) = (payload @ cksm, None)"
    and "length cksm = ChecksumHashLength E"
    and "protocol = SECP256K1 \<or> protocol = Actor \<Longrightarrow> PayloadHashLength E = 20"
    and "3 \<le> length s" and "length s \<le> MaxAddressStringLength E" and "s \<noteq> EmptyAddressString E"
  shows "decode E s = Returned (a, None)"
proof -
  have raw: "drop 2 s = EncodeToString E (payload @ cksm)"
    using assms(4) by (simp add: TestnetPrefix_def)
  have c0: "[s ! 0] = TestnetPrefix" and c1: "s ! 1 = c"
    using assms(4) by (simp_all add: TestnetPrefix_def)
  have pl: "length payload = 20" if "protocol = SECP256K1 \<or> protocol = Actor"
    using that assms(1,8) by (auto simp: newAddress_def protocols_distinct split: if_splits)
  have ne: "s \<noteq> []" using assms(9) by auto
  show ?thesis
    using ne assms(1,2,3,5,6,7,9,10,11) raw c0 c1 pl
    by (auto simp: decode_def Let_def ValidateChecksum_def)
qed

text \<open>
  C9. Let \<open>a\<close> be an address that \<open>newAddress\<close> accepts for its protocol and payload, and
  let \<open>a.String()\<close> have produced \<open>s\<close>. Then \<open>decode\<close> of \<open>s\<close> succeeds and returns \<open>a\<close>,
  given what the round trip needs of the parts that are parameters here: the text fits
  the length bounds and is not the empty-address text; an ID payload is the leb128
  encoding of the number it decodes to; base32 decoding undoes the encoding of this
  payload and checksum; the checksum has the checksum length; and the payload hash length
  is the \<open>20\<close> that \<open>decode\<close> tests for.
\<close>

theorem String_decode_roundtrip:
  assumes "newAddress E protocol payload = (a, None)"
    and "String E a = Returned s"
    and "3 \<le> length s" and "length s \<le> MaxAddressStringLength E"
    and "s \<noteq> EmptyAddressString E"
    and "\<And>n. protocol = ID \<Longrightarrow> ToUInt64 E payload = Returned n \<Longrightarrow> FromUInt64 E n = payload"
    and "protocol \<noteq> ID \<Longrightarrow>
           DecodeString E (EncodeToString E (payload @ Checksum E ([protocol] @ payload)))
             = (payload @ Checksum E ([protocol] @ payload), None)"
    and "protocol \<noteq> ID \<Longrightarrow> length (Checksum E ([protocol] @ payload)) = ChecksumHashLength E"
    and "protocol = SECP256K1 \<or> protocol = Actor \<Longrightarrow> PayloadHashLength E = 20"
  shows "decode E s = Returned (a, None)"
proof -
  from assms(1) have a: "a = Address (protocol # payload)"
    and p: "protocol \<in> {ID, SECP256K1, Actor, BLS}"
    using newAddress_ok by blast+
  show ?thesis
  proof (cases "protocol = ID")
    case True
    with assms(2) a obtain n where n: "ToUInt64 E payload = Returned n"
      and s: "s = TestnetPrefix @ ''0'' @ Sprintf_d (unat n)"
      by (auto simp: String_def encode_def Testnet_def Mainnet_def Let_def Sprintf_d_protocols
          protocols_distinct split: outcome.splits if_splits)
    from assms(6) [OF True n] have "FromUInt64 E n = payload" .
    with assms(1) True s assms(4,5) show ?thesis
      by (intro decode_ID [where n = n and payload = payload]) simp_all
  next
    case False
    with p obtain c where c: "protocol_of_char c = Some protocol"
      and cs: "[c] = Sprintf_d (unat protocol)"
      by (auto simp: protocol_of_char_def Sprintf_d_protocols protocols_distinct)
    have s: "s = TestnetPrefix @ [c] @ EncodeToString E (payload @ Checksum E ([protocol] @ payload))"
      using assms(2) a False p cs
      by (auto simp: String_def encode_def Testnet_def Mainnet_def Let_def split: if_splits)
    show ?thesis
      using assms(1) False c s assms(7) [OF False] assms(8) [OF False] assms(9) assms(3,4,5)
      by (intro decode_hashed [where protocol = protocol and payload = payload and c = c
            and cksm = "Checksum E ([protocol] @ payload)"]) simp_all
  qed
qed

text \<open>The stand-in environment, evaluated.\<close>

lemmas addr_consts = Testnet_def Mainnet_def ID_def Actor_def BLS_def SECP256K1_def
  TestnetPrefix_def MainnetPrefix_def

lemma testEnv_String_ID: "String testEnv testIDAddress = Returned ''t0300''"
  by (simp add: String_def encode_def testEnv_def testIDAddress_def addr_consts
      Sprintf_d.simps digit_char_def)

lemma testEnv_newAddress_ID: "newAddress testEnv ID [172, 2] = (testIDAddress, None)"
  by (simp add: newAddress_def testIDAddress_def ID_def)

lemma testEnv_leb128:
  "ToUInt64 testEnv [172, 2] = Returned 300 \<and> FromUInt64 testEnv 300 = [172, 2]"
  by (simp add: testEnv_def leb128_enc.simps)

lemma testEnv_newAddress_Secp:
  "newAddress testEnv SECP256K1 (replicate 20 5) = (testSecpAddress, None)"
  by (simp add: newAddress_def testEnv_def testSecpAddress_def SECP256K1_def ID_def)

lemma testEnv_String_Secp:
  "String testEnv testSecpAddress
     = Returned (''t1'' @ map (\<lambda>b. char_of (unat b)) (replicate 20 (5 :: byte) @ [21, 101, 0, 1]))"
  by (simp add: String_def encode_def testEnv_def testSecpAddress_def addr_consts
     Sprintf_d.simps digit_char_def Checksum_def hash_def testHash_def sum_list_replicate)

lemma byte_char_byte: "word_of_nat (of_char (char_of (unat (b :: byte)) :: char)) = b"
proof -
  have "unat b < 256" using unsigned_less [of b] by simp
  then show ?thesis by simp
qed

lemma testEnv_base32: "DecodeString testEnv (EncodeToString testEnv bs) = (bs, None)"
  by (simp add: testEnv_def comp_def byte_char_byte del: of_char_of)

lemma testEnv_Checksum_length: "length (Checksum testEnv x) = ChecksumHashLength testEnv"
  by (simp add: Checksum_def hash_def testEnv_def testHash_def)

theorem String_decode_roundtrip_witness:
  "newAddress testEnv ID [172, 2] = (testIDAddress, None)
   \<and> String testEnv testIDAddress = Returned ''t0300''
   \<and> decode testEnv ''t0300'' = Returned (testIDAddress, None)
   \<and> newAddress testEnv SECP256K1 (replicate 20 5) = (testSecpAddress, None)
   \<and> (\<exists>s. String testEnv testSecpAddress = Returned s
          \<and> decode testEnv s = Returned (testSecpAddress, None))"
proof -
  have i: "decode testEnv ''t0300'' = Returned (testIDAddress, None)"
    using testEnv_leb128
    by (intro String_decode_roundtrip [OF testEnv_newAddress_ID testEnv_String_ID])
      (simp_all add: testEnv_def)
  have h: "decode testEnv
             (''t1'' @ map (\<lambda>b. char_of (unat b)) (replicate 20 (5 :: byte) @ [21, 101, 0, 1]))
             = Returned (testSecpAddress, None)"
    by (intro String_decode_roundtrip [OF testEnv_newAddress_Secp testEnv_String_Secp]
          testEnv_base32 testEnv_Checksum_length)
      (simp_all add: testEnv_def SECP256K1_def ID_def)
  show ?thesis
    using testEnv_newAddress_ID testEnv_String_ID i testEnv_newAddress_Secp
      testEnv_String_Secp h
    by simp
qed

text \<open>
  The ID hypothesis is needed: \<open>NewFromBytes\<close> accepts an ID address whose payload is a
  padded leb128 encoding of zero, its text is that of the number zero, and the text
  decodes to the address with the short payload.
\<close>

lemma padded_ID_payload_reads_back_short:
  "NewFromBytes testEnv [0, 128, 0] = (Address [0, 128, 0], None)
   \<and> String testEnv (Address [0, 128, 0]) = Returned ''t00''
   \<and> decode testEnv ''t00'' = Returned (Address [0, 0], None)"
  by (simp add: NewFromBytes_def newAddress_def String_def encode_def decode_def testEnv_def
      addr_consts Sprintf_d.simps digit_char_def protocol_of_char_def ParseUint_def
      digit_val_def leb128_enc.simps)


end
